theory Spec2Isabelle
  imports Main
begin

section \<open>JavaScript values the server inspects\<close>

text \<open>
  The server (\<^verbatim>\<open>server.js\<close>) receives JSON and tests a handful of fields with
  JavaScript's own operators: truthiness (\<^verbatim>\<open>!x\<close>, \<^verbatim>\<open>x && y\<close>), strict equality with a
  string literal, and the relational operators \<^verbatim>\<open><\<close> and \<^verbatim>\<open>>=\<close>, which convert both
  sides with ToNumber and answer \<^verbatim>\<open>false\<close> as soon as one side is NaN.

  Fields that the code compares or adds as numbers (\<^verbatim>\<open>version\<close>, \<^verbatim>\<open>remindAt\<close>,
  \<^verbatim>\<open>notifiedAt\<close>) range over \<open>jsnum\<close>: an absent field (\<^verbatim>\<open>undefined\<close>), \<^verbatim>\<open>null\<close>,
  a boolean, or an integer. Numbers are the integers: every number the code produces is
  an epoch-millisecond reading of \<^verbatim>\<open>Date.now()\<close>, where the arithmetic of doubles is
  exact. String-valued numeric fields are outside this type. Fields that are only tested
  for truthiness or compared with a string literal range over \<open>jsval\<close>, which adds
  strings.

  The database is a pair of tables held in memory, and a storage call is taken to
  succeed. An awaited call has taken effect when the caller goes on; the one call the
  code does not await, the dispatcher's delete, is issued and runs later. The clock (\<^verbatim>\<open>Date.now()\<close>) and the push service are parameters of the
  functions that use them.
\<close>

datatype jsnum = JUndefined | JNull | JBool bool | JNum int

datatype jsval = JPrim jsnum | JStr string

text \<open>A JavaScript number: an integer, or \<open>None\<close> for NaN.\<close>

type_synonym jsnumber = "int option"

fun to_number :: "jsnum \<Rightarrow> jsnumber" where
  "to_number JUndefined = None"
| "to_number JNull = Some 0"
| "to_number (JBool b) = Some (if b then 1 else 0)"
| "to_number (JNum n) = Some n"

fun truthy_num :: "jsnum \<Rightarrow> bool" where
  "truthy_num JUndefined = False"
| "truthy_num JNull = False"
| "truthy_num (JBool b) = b"
| "truthy_num (JNum n) = (n \<noteq> 0)"

fun truthy :: "jsval \<Rightarrow> bool" where
  "truthy (JPrim p) = truthy_num p"
| "truthy (JStr s) = (s \<noteq> [])"

text \<open>\<^verbatim>\<open>a < b\<close>, \<^verbatim>\<open>a >= b\<close> and \<^verbatim>\<open>a + b\<close> on numbers; a comparison with NaN is false.\<close>

fun num_lt :: "jsnumber \<Rightarrow> jsnumber \<Rightarrow> bool" where
  "num_lt (Some x) (Some y) = (x < y)"
| "num_lt _ _ = False"

fun num_ge :: "jsnumber \<Rightarrow> jsnumber \<Rightarrow> bool" where
  "num_ge (Some x) (Some y) = (y \<le> x)"
| "num_ge _ _ = False"

fun num_add :: "jsnumber \<Rightarrow> jsnumber \<Rightarrow> jsnumber" where
  "num_add (Some x) (Some y) = Some (x + y)"
| "num_add _ _ = None"

section \<open>Tasks and the stored collections\<close>

text \<open>
  A task is an object of which the server reads \<^verbatim>\<open>deletedAt\<close>, \<^verbatim>\<open>status\<close>,
  \<^verbatim>\<open>remindAt\<close> and \<^verbatim>\<open>notifiedAt\<close> (and writes the last), and the display fields
  \<^verbatim>\<open>id\<close>, \<^verbatim>\<open>title\<close>, \<^verbatim>\<open>date\<close> and \<^verbatim>\<open>start\<close> when it builds a notification. The
  display fields are taken as strings, the empty string standing for an absent
  \<^verbatim>\<open>date\<close> or \<^verbatim>\<open>start\<close> (both are falsy). Everything else a client stores in a task
  is the opaque \<open>other\<close>.
\<close>

record 'a task =
  task_id :: string
  title :: string
  date :: string
  start :: string
  status :: jsval
  deletedAt :: jsval
  remindAt :: jsnum
  notifiedAt :: jsnum
  other :: 'a

text \<open>
  An element of a stored array is an object (\<open>Record\<close>, which also stands for a nested
  array: its inspected fields are all absent) or a primitive value.
\<close>

datatype 'a entry = Record "'a task" | Primitive jsval

text \<open>
  The column \<^verbatim>\<open>json_data\<close> holds \<^verbatim>\<open>JSON.stringify(data)\<close> and is read back with
  \<^verbatim>\<open>JSON.parse\<close>; the model keeps the parsed document. \<open>Arr\<close> is an array, \<open>NotArr\<close>
  any other document (or a text that does not parse), kept opaque.
\<close>

datatype 'a doc = Arr "'a entry list" | NotArr 'a

record 'a row =
  json_data :: "'a doc"
  version :: int

text \<open>
  The table \<^verbatim>\<open>data\<close>, keyed by \<^verbatim>\<open>username\<close>. \<^verbatim>\<open>INSERT OR REPLACE\<close> removes the row
  of that key and adds the new one.
\<close>

type_synonym 'a data_table = "(string \<times> 'a row) list"

definition insert_or_replace :: "string \<Rightarrow> 'a row \<Rightarrow> 'a data_table \<Rightarrow> 'a data_table" where
  "insert_or_replace u r tbl = filter (\<lambda>kv. fst kv \<noteq> u) tbl @ [(u, r)]"

section \<open>Sync: \<^verbatim>\<open>GET /api/data\<close> and \<^verbatim>\<open>POST /api/data\<close>\<close>

text \<open>
  \<^verbatim>\<open>db.get("SELECT ... WHERE username = ?")\<close> hands the callback the row, or
  \<^verbatim>\<open>undefined\<close> when there is none.
\<close>

definition db_get :: "'a data_table \<Rightarrow> string \<Rightarrow> 'a row option" where
  "db_get tbl u = map_of tbl u"

text \<open>\<^verbatim>\<open>res.json({ data: row ? JSON.parse(row.json_data) : [], version: row ? row.version : 0 })\<close>\<close>

definition fetch :: "'a data_table \<Rightarrow> string \<Rightarrow> 'a doc \<times> int" where
  "fetch tbl u =
     (case db_get tbl u of
        Some row \<Rightarrow> (json_data row, version row)
      | None \<Rightarrow> (Arr [], 0))"

text \<open>
  The two answers of the write handler: status 409 with \<^verbatim>\<open>{error: "Conflict", serverVersion}\<close>,
  or \<^verbatim>\<open>{success: true, version}\<close>.
\<close>

datatype response = Conflict int | Success int

text \<open>
  \<^verbatim>\<open>const serverVersion = row ? row.version : 0\<close>, and then
  \<open>publish now tbl u data clientVersion force\<close>, the handler of \<^verbatim>\<open>POST /api/data\<close> for
  the authenticated user \<open>u\<close> and the body \<^verbatim>\<open>{data, version, force}\<close>: \<open>now\<close> is the reading
  of \<^verbatim>\<open>Date.now()\<close> taken for the write. It returns the answer and the table.
\<close>

definition serverVersion :: "'a data_table \<Rightarrow> string \<Rightarrow> int" where
  "serverVersion tbl u = (case db_get tbl u of Some row \<Rightarrow> version row | None \<Rightarrow> 0)"

definition publish ::
  "int \<Rightarrow> 'a data_table \<Rightarrow> string \<Rightarrow> 'a doc \<Rightarrow> jsnum \<Rightarrow> jsval \<Rightarrow> response \<times> 'a data_table" where
  "publish now tbl u data clientVersion force =
     (if \<not> truthy force \<and> num_lt (to_number clientVersion) (Some (serverVersion tbl u))
      then (Conflict (serverVersion tbl u), tbl)
      else (let newVersion = now in
            (Success newVersion,
             insert_or_replace u \<lparr>json_data = data, version = newVersion\<rparr> tbl)))"

text \<open>
  A client's successive calls for one user, each with its own clock reading; the answers
  in order.
\<close>

fun publish_seq ::
  "'a data_table \<Rightarrow> string \<Rightarrow> (int \<times> 'a doc \<times> jsnum \<times> jsval) list \<Rightarrow> response list" where
  "publish_seq tbl u [] = []"
| "publish_seq tbl u ((now, data, clientVersion, force) # calls) =
     (case publish now tbl u data clientVersion force of
        (r, tbl') \<Rightarrow> r # publish_seq tbl' u calls)"

fun returned_versions :: "response list \<Rightarrow> int list" where
  "returned_versions [] = []"
| "returned_versions (Success v # rs) = v # returned_versions rs"
| "returned_versions (Conflict v # rs) = returned_versions rs"

section \<open>Push subscriptions and the dispatcher\<close>

text \<open>
  The table \<^verbatim>\<open>push_subscriptions\<close>; \<^verbatim>\<open>endpoint\<close> is its key (the subscribe handler
  writes it with \<^verbatim>\<open>INSERT OR REPLACE\<close>).
\<close>

record push_subscription =
  endpoint :: string
  username :: string
  p256dh :: string
  auth :: string
  expiration_time :: "int option"
  created_at :: int

type_synonym push_table = "push_subscription list"

text \<open>\<^verbatim>\<open>DELETE FROM push_subscriptions WHERE endpoint = ?\<close>, when the database runs it.\<close>

definition delete_endpoint :: "string \<Rightarrow> push_table \<Rightarrow> push_table" where
  "delete_endpoint e reg = filter (\<lambda>s. endpoint s \<noteq> e) reg"

text \<open>
  The dispatcher calls \<^verbatim>\<open>db.run("DELETE ...")\<close> with no callback and without awaiting
  it (unlike the scanner's \<^verbatim>\<open>await dbRun(...)\<close>): the call hands the statement to the
  database and returns at once, and the database runs the statement at a time of its
  own. The state of the subscription database is therefore the stored table together
  with the endpoints of the deletes that were issued and have not run yet.
  \<open>issue_delete\<close> is the call; \<open>run_issued has_run\<close> is the database running those issued
  deletes whose endpoint \<open>has_run\<close> names.
\<close>

record push_db =
  stored :: push_table
  issued :: "string list"

definition issue_delete :: "string \<Rightarrow> push_db \<Rightarrow> push_db" where
  "issue_delete e db = db\<lparr>issued := issued db @ [e]\<rparr>"

definition run_issued :: "(string \<Rightarrow> bool) \<Rightarrow> push_db \<Rightarrow> push_db" where
  "run_issued has_run db =
     \<lparr>stored = fold delete_endpoint (filter has_run (issued db)) (stored db),
      issued = filter (\<lambda>e. \<not> has_run e) (issued db)\<rparr>"

text \<open>The object handed to the push service, and the title of a reminder (UTF-8 bytes).\<close>

record push_payload =
  push_title :: string
  push_body :: string
  push_url :: string
  push_tag :: string

definition REMINDER_TITLE :: string where
  "REMINDER_TITLE = map char_of
     [229, 188, 128, 229, 167, 139, 230, 151, 182, 233, 151, 180, 230, 143, 144, 233, 134, 146 :: nat]"

definition buildPushPayload :: "'a task \<Rightarrow> push_payload" where
  "buildPushPayload t =
     (let when = (if date t \<noteq> [] then date t @ (if start t \<noteq> [] then '' '' @ start t else [])
                  else [])
      in \<lparr>push_title = REMINDER_TITLE,
          push_body = (if when \<noteq> [] then title t @ '' ('' @ when @ '')'' else title t),
          push_url = ''/'',
          push_tag = ''task-'' @ task_id t\<rparr>)"

text \<open>
  \<^verbatim>\<open>webpush.sendNotification\<close> is the external push service: it resolves, or rejects
  with an error whose \<^verbatim>\<open>statusCode\<close> may be missing. The model takes it as a parameter,
  a function of the subscription's endpoint and keys and of the message.
\<close>

datatype send_result = Delivered | Rejected "int option"

type_synonym transport = "string \<Rightarrow> string \<Rightarrow> string \<Rightarrow> push_payload \<Rightarrow> send_result"

text \<open>
  One job of the fan-out (the body of \<^verbatim>\<open>subs.map\<close>): a rejection with status 404 or 410
  issues the delete of that endpoint, any other rejection is only logged.
\<close>

definition send_job :: "transport \<Rightarrow> push_payload \<Rightarrow> push_subscription \<Rightarrow> push_db \<Rightarrow> push_db" where
  "send_job tr message sub reg =
     (case tr (endpoint sub) (p256dh sub) (auth sub) message of
        Delivered \<Rightarrow> reg
      | Rejected code \<Rightarrow>
          if code = Some 404 \<or> code = Some 410 then issue_delete (endpoint sub) reg
          else reg)"

text \<open>
  \<open>sendPushToUser configured tr has_run reg u payload\<close>: \<open>configured\<close> is
  \<^verbatim>\<open>isPushConfigured()\<close>. The awaited \<^verbatim>\<open>SELECT\<close> is answered from the table as it is once
  the database has run the deletes issued earlier that \<open>has_run\<close> names; which ones it has
  run by then is not decided by the code, so \<open>has_run\<close> is a parameter. The jobs run
  concurrently in the source; each only issues the delete of its own endpoint, so the
  model runs them in the order of the rows. The call returns \<^verbatim>\<open>sent\<close> and the state of
  the database, in which the deletes of this call are issued and not yet run.
\<close>

definition sendPushToUser ::
  "bool \<Rightarrow> transport \<Rightarrow> (string \<Rightarrow> bool) \<Rightarrow> push_db \<Rightarrow> string \<Rightarrow> push_payload
     \<Rightarrow> bool \<times> push_db" where
  "sendPushToUser configured tr has_run reg u payload =
     (if \<not> configured then (False, reg)
      else (let reg1 = run_issued has_run reg;
                subs = filter (\<lambda>s. username s = u) (stored reg1) in
            if subs = [] then (False, reg1)
            else (True, fold (send_job tr payload) subs reg1)))"

section \<open>The reminder scanner\<close>

definition PUSH_WINDOW_MS :: int where
  "PUSH_WINDOW_MS = 60 * 1000"

text \<open>
  The guards of the loop body for a task object, in the source's order; \<open>due now t\<close> holds
  when no \<^verbatim>\<open>continue\<close> is taken, so that the scan at time \<open>now\<close> calls the dispatcher
  for \<open>t\<close>.
\<close>

definition due :: "int \<Rightarrow> 'a task \<Rightarrow> bool" where
  "due now t =
     (if truthy (deletedAt t) \<or> status t = JStr ''completed'' then False
      else (let r = remindAt t in
            if \<not> truthy_num r then False
            else if truthy_num (notifiedAt t) \<and> num_ge (to_number (notifiedAt t)) (to_number r)
            then False
            else if num_lt (Some now) (to_number r)
                    \<or> num_ge (Some now) (num_add (to_number r) (Some PUSH_WINDOW_MS))
            then False
            else True))"

text \<open>\<^verbatim>\<open>task.notifiedAt = now\<close>\<close>

fun mark_notified :: "int \<Rightarrow> 'a entry \<Rightarrow> 'a entry" where
  "mark_notified now (Record t) = Record (t\<lparr>notifiedAt := JNum now\<rparr>)"
| "mark_notified now (Primitive v) = Primitive v"

text \<open>
  The loop over one user's tasks: the tasks as they are after the loop, the flag
  \<^verbatim>\<open>changed\<close>, and the subscription database. A primitive element never reaches the
  dispatcher: a falsy one is skipped by \<^verbatim>\<open>!task\<close>, and a truthy one has no
  \<^verbatim>\<open>remindAt\<close>. The parameter \<open>sched\<close> stands for the database's own timing:
  \<open>sched u k e\<close> says whether the issued delete of endpoint \<open>e\<close> has run when the
  dispatcher is called for a task of \<open>u\<close> with \<open>k\<close> elements still to scan.
\<close>

type_synonym scheduler = "string \<Rightarrow> nat \<Rightarrow> string \<Rightarrow> bool"

fun scan_tasks ::
  "bool \<Rightarrow> transport \<Rightarrow> scheduler \<Rightarrow> string \<Rightarrow> int \<Rightarrow> 'a entry list \<Rightarrow> push_db
     \<Rightarrow> 'a entry list \<times> bool \<times> push_db" where
  "scan_tasks configured tr sched u now [] reg = ([], False, reg)"
| "scan_tasks configured tr sched u now (Primitive v # es) reg =
     (case scan_tasks configured tr sched u now es reg of
        (es', changed, reg') \<Rightarrow> (Primitive v # es', changed, reg'))"
| "scan_tasks configured tr sched u now (Record t # es) reg =
     (if \<not> due now t then
        (case scan_tasks configured tr sched u now es reg of
           (es', changed, reg') \<Rightarrow> (Record t # es', changed, reg'))
      else
        (case sendPushToUser configured tr (sched u (length es)) reg u (buildPushPayload t) of
           (sent, reg1) \<Rightarrow>
             (case scan_tasks configured tr sched u now es reg1 of
                (es', changed, reg2) \<Rightarrow>
                  ((if sent then Record (t\<lparr>notifiedAt := JNum now\<rparr>) else Record t) # es',
                   sent \<or> changed, reg2))))"

text \<open>
  The body of the loop over the rows read at the start of the scan. \<open>wclock u\<close> is the
  reading of \<^verbatim>\<open>Date.now()\<close> taken for the write of \<open>u\<close>'s row.
\<close>

definition scan_row ::
  "bool \<Rightarrow> transport \<Rightarrow> scheduler \<Rightarrow> int \<Rightarrow> (string \<Rightarrow> int) \<Rightarrow> string \<times> 'a row
     \<Rightarrow> 'a data_table \<times> push_db \<Rightarrow> 'a data_table \<times> push_db" where
  "scan_row configured tr sched now wclock urow st =
     (case st of (tbl, reg) \<Rightarrow>
      (case json_data (snd urow) of
         NotArr x \<Rightarrow> (tbl, reg)
       | Arr tasks \<Rightarrow>
           if tasks = [] then (tbl, reg)
           else (case scan_tasks configured tr sched (fst urow) now tasks reg of
                   (tasks', changed, reg') \<Rightarrow>
                     if changed
                     then (insert_or_replace (fst urow)
                             \<lparr>json_data = Arr tasks', version = wclock (fst urow)\<rparr> tbl, reg')
                     else (tbl, reg'))))"

definition scanAndSendReminders ::
  "bool \<Rightarrow> transport \<Rightarrow> scheduler \<Rightarrow> int \<Rightarrow> (string \<Rightarrow> int) \<Rightarrow> 'a data_table \<times> push_db
     \<Rightarrow> 'a data_table \<times> push_db" where
  "scanAndSendReminders configured tr sched now wclock st =
     (if \<not> configured then st
      else fold (scan_row configured tr sched now wclock) (fst st) st)"

text \<open>
  For the statements about a scan: which tasks of a collection the dispatcher answered
  \<^verbatim>\<open>true\<close> for, position by position, following the subscription database through the
  loop as \<open>scan_tasks\<close> does.
\<close>

fun sent_flags ::
  "bool \<Rightarrow> transport \<Rightarrow> scheduler \<Rightarrow> string \<Rightarrow> int \<Rightarrow> 'a entry list \<Rightarrow> push_db \<Rightarrow> bool list" where
  "sent_flags configured tr sched u now [] reg = []"
| "sent_flags configured tr sched u now (Primitive v # es) reg =
     False # sent_flags configured tr sched u now es reg"
| "sent_flags configured tr sched u now (Record t # es) reg =
     (if \<not> due now t then False # sent_flags configured tr sched u now es reg
      else (case sendPushToUser configured tr (sched u (length es)) reg u (buildPushPayload t) of
              (sent, reg1) \<Rightarrow> sent # sent_flags configured tr sched u now es reg1))"

text \<open>The collection with the flagged tasks marked, every other element as it was.\<close>

definition mark_sent :: "int \<Rightarrow> 'a entry list \<Rightarrow> bool list \<Rightarrow> 'a entry list" where
  "mark_sent now es flags = map2 (\<lambda>e f. if f then mark_notified now e else e) es flags"

section \<open>Vocabulary of the specification\<close>

text \<open>The reminder window of a task with \<^verbatim>\<open>remindAt = r\<close>: the half-open interval from \<open>r\<close>.\<close>

definition in_window :: "int \<Rightarrow> int \<Rightarrow> bool" where
  "in_window now r = (r \<le> now \<and> now < r + PUSH_WINDOW_MS)"



section \<open>Example data\<close>

text \<open>
  The scenario of the specification: the user \<^verbatim>\<open>alice\<close> stores, at version 5, the one task
  \<^verbatim>\<open>{id: "t1", remindAt: 1000, status: "active"}\<close>, and has registered two devices. The
  push service delivers to the first and answers 410 for the second; \<^verbatim>\<open>bob\<close> has one
  device, which the service rejects with status 500.
\<close>

definition task_t1 :: "unit task" where
  "task_t1 = \<lparr>task_id = ''t1'', title = ''Water the plants'', date = [], start = [],
              status = JStr ''active'', deletedAt = JPrim JUndefined,
              remindAt = JNum 1000, notifiedAt = JUndefined, other = ()\<rparr>"

definition alice_table :: "unit data_table" where
  "alice_table = [(''alice'', \<lparr>json_data = Arr [Record task_t1], version = 5\<rparr>)]"

definition alice_phone :: push_subscription where
  "alice_phone = \<lparr>endpoint = ''https://push.example/phone'', username = ''alice'',
                  p256dh = ''k1'', auth = ''a1'', expiration_time = None, created_at = 10\<rparr>"



text \<open>A database that has run every issued delete by the next time it is asked.\<close>

definition prompt_db :: scheduler where
  "prompt_db u k e = True"

definition example_transport :: transport where
  "example_transport e k a message =
     (if e = ''https://push.example/laptop'' then Rejected (Some 410)
      else if e = ''https://push.example/bob'' then Rejected (Some 500)
      else Delivered)"


section \<open>Lemmas about the tables\<close>

lemma db_get_insert_or_replace_same:
  "db_get (insert_or_replace u r tbl) u = Some r"
proof -
  have "map_of (filter (\<lambda>kv. fst kv \<noteq> u) tbl) u = None"
    by (induction tbl) auto
  then show ?thesis
    by (simp add: db_get_def insert_or_replace_def map_add_def)
qed

lemma db_get_insert_or_replace_other:
  assumes "k \<noteq> u"
  shows "db_get (insert_or_replace u r tbl) k = db_get tbl k"
proof -
  have "map_of (filter (\<lambda>kv. fst kv \<noteq> u) tbl) k = map_of tbl k"
    using assms by (induction tbl) auto
  then show ?thesis
    using assms
    by (simp add: db_get_def insert_or_replace_def map_add_def split: option.splits)
qed

lemma fetch_after_write:
  "fetch (insert_or_replace u \<lparr>json_data = data, version = v\<rparr> tbl) u = (data, v)"
  by (simp add: fetch_def db_get_insert_or_replace_same)

lemma publish_other_user:
  assumes "k \<noteq> u"
  shows "fetch (snd (publish now tbl u data clientVersion force)) k = fetch tbl k"
  using assms by (simp add: publish_def fetch_def db_get_insert_or_replace_other)

section \<open>The sync handlers\<close>

text \<open>
  C1 (conflict rejection). A publish whose \<^verbatim>\<open>force\<close> is false (or any falsy value)
  and whose client version is a number less than the stored server version is answered
  with \<open>Conflict\<close> carrying the stored server version, and the table that comes back is
  the table that went in: nothing is written. The server version of a user with no row
  is 0.
\<close>

theorem C1_conflict_rejection:
  assumes "\<not> truthy force"
    and "to_number clientVersion = Some v"
    and "v < serverVersion tbl u"
  shows "publish now tbl u data clientVersion force = (Conflict (serverVersion tbl u), tbl)"
  using assms by (simp add: publish_def)

text \<open>The scenario of the specification: version 4 against the stored version 5.\<close>

theorem C1_conflict_rejection_witness:
  "publish 2000 alice_table ''alice'' (Arr []) (JNum 4) (JPrim (JBool False))
     = (Conflict 5, alice_table)
   \<and> fetch alice_table ''alice'' = (Arr [Record task_t1], 5)"
proof -
  have v: "serverVersion alice_table ''alice'' = 5"
    by (simp add: serverVersion_def db_get_def alice_table_def)
  have f: "fetch alice_table ''alice'' = (Arr [Record task_t1], 5)"
    by (simp add: fetch_def db_get_def alice_table_def)
  have "publish 2000 alice_table ''alice'' (Arr []) (JNum 4) (JPrim (JBool False))
          = (Conflict (serverVersion alice_table ''alice''), alice_table)"
    by (rule C1_conflict_rejection [where v = 4]) (simp_all add: v)
  then show ?thesis
    using v f by simp
qed

text \<open>
  C5 (force bypass). A publish whose \<^verbatim>\<open>force\<close> is true (or any truthy value)
  succeeds whatever the client version and the stored version are: the answer carries
  the clock reading of the write as the new version, the user's row is replaced by the
  published document with that version, and a fetch that follows returns exactly the
  published document and that version.
\<close>

theorem C5_force_bypass:
  assumes "truthy force"
  shows "publish now tbl u data clientVersion force
           = (Success now, insert_or_replace u \<lparr>json_data = data, version = now\<rparr> tbl)
         \<and> fetch (snd (publish now tbl u data clientVersion force)) u = (data, now)"
  using assms by (simp add: publish_def fetch_after_write)

theorem C5_force_bypass_witness:
  "publish 2000 alice_table ''alice'' (Arr []) (JNum 4) (JPrim (JBool True))
     = (Success 2000, [(''alice'', \<lparr>json_data = Arr [], version = 2000\<rparr>)])
   \<and> fetch (snd (publish 2000 alice_table ''alice'' (Arr []) (JNum 4) (JPrim (JBool True)))) ''alice''
     = (Arr [], 2000)"
proof -
  have t: "truthy (JPrim (JBool True))" by simp
  have w: "insert_or_replace ''alice'' \<lparr>json_data = Arr [], version = 2000\<rparr> alice_table
             = [(''alice'', \<lparr>json_data = Arr [], version = 2000\<rparr>)]"
    by (simp add: insert_or_replace_def alice_table_def)
  show ?thesis
    using C5_force_bypass [OF t, of 2000 alice_table "''alice''" "Arr []" "JNum 4"] w
    by (simp add: fetch_def db_get_def)
qed

text \<open>
  C6 (fetch). When the table holds a row for the user (the key is unique), fetch returns
  that row's document and version; when it holds none, fetch returns the empty array
  and version 0. Fetch is a total function: it has an answer for every user name.
\<close>

theorem C6_fetch:
  "(distinct (map fst tbl) \<and> (u, row) \<in> set tbl \<longrightarrow> fetch tbl u = (json_data row, version row))
   \<and> (u \<notin> fst ` set tbl \<longrightarrow> fetch tbl u = (Arr [], 0))"
proof (intro conjI impI)
  assume "distinct (map fst tbl) \<and> (u, row) \<in> set tbl"
  then have "map_of tbl u = Some row" by simp
  then show "fetch tbl u = (json_data row, version row)"
    by (simp add: fetch_def db_get_def)
next
  assume "u \<notin> fst ` set tbl"
  then have "map_of tbl u = None" by (simp add: map_of_eq_None_iff)
  then show "fetch tbl u = (Arr [], 0)"
    by (simp add: fetch_def db_get_def)
qed

theorem C6_fetch_witness:
  "fetch alice_table ''alice'' = (Arr [Record task_t1], 5)
   \<and> fetch alice_table ''bob'' = (Arr [], 0)"
proof -
  have a: "distinct (map fst alice_table)
           \<and> (''alice'', \<lparr>json_data = Arr [Record task_t1], version = 5\<rparr>) \<in> set alice_table"
    by (simp add: alice_table_def)
  have b: "''bob'' \<notin> fst ` set alice_table"
    by (simp add: alice_table_def)
  show ?thesis
    using C6_fetch [of alice_table "''alice''" "\<lparr>json_data = Arr [Record task_t1], version = 5\<rparr>"]
      C6_fetch [of alice_table "''bob''"] a b
    by simp
qed

text \<open>
  C9 (absent client version). When the body carries no \<^verbatim>\<open>version\<close>, the comparison
  \<^verbatim>\<open>undefined < serverVersion\<close> is false whatever the stored version is, so the call is
  never answered with \<open>Conflict\<close>: with \<^verbatim>\<open>force\<close> false (and with any other value of it)
  the publish succeeds at the clock reading of the write and replaces the stored row.
\<close>

theorem C9_absent_version_never_conflicts:
  "publish now tbl u data JUndefined force
     = (Success now, insert_or_replace u \<lparr>json_data = data, version = now\<rparr> tbl)
   \<and> fst (publish now tbl u data JUndefined (JPrim (JBool False))) = Success now
   \<and> fetch (snd (publish now tbl u data JUndefined (JPrim (JBool False)))) u = (data, now)"
  by (simp add: publish_def fetch_after_write)

lemma returned_versions_are_readings:
  "set (returned_versions (publish_seq tbl u calls)) \<subseteq> set (map fst calls)"
proof (induction calls arbitrary: tbl)
  case Nil
  then show ?case by simp
next
  case (Cons c calls)
  obtain now d v f where c: "c = (now, d, v, f)"
    by (cases c) auto
  show ?case
    using Cons.IH by (auto simp: c publish_def split: prod.splits if_splits)
qed

text \<open>
  C4 (version monotonicity), as the code has it. The version a successful publish returns
  is the clock reading taken for its write. So when the clock readings of a user's
  successive calls strictly increase, the versions returned by the successful ones
  strictly increase too, each greater than the one before; every returned version is
  one of the readings.
\<close>

theorem C4_versions_follow_clock:
  assumes "sorted_wrt (<) (map fst calls)"
  shows "sorted_wrt (<) (returned_versions (publish_seq tbl u calls))
         \<and> set (returned_versions (publish_seq tbl u calls)) \<subseteq> set (map fst calls)"
proof -
  have "sorted_wrt (<) (returned_versions (publish_seq tbl u calls))"
    using assms
  proof (induction calls arbitrary: tbl)
    case Nil
    then show ?case by simp
  next
    case (Cons c calls)
    obtain now d v f where c: "c = (now, d, v, f)"
      by (cases c) auto
    have later: "\<forall>x \<in> set (returned_versions (publish_seq tbl' u calls)). now < x" for tbl'
      using Cons.prems returned_versions_are_readings [of tbl' u calls] by (auto simp: c)
    have rest: "sorted_wrt (<) (returned_versions (publish_seq tbl' u calls))" for tbl'
      using Cons by simp
    show ?case
      using later rest by (auto simp: c publish_def split: prod.splits if_splits)
  qed
  then show ?thesis
    using returned_versions_are_readings [of tbl u calls] by simp
qed

text \<open>
  Three calls at the readings 2000, 2001 and 2002: the second is stale and rejected, the
  other two return 2000 and 2002.
\<close>

theorem C4_versions_follow_clock_witness:
  "returned_versions (publish_seq alice_table ''alice''
      [(2000, Arr [], JNum 5, JPrim (JBool False)),
       (2001, Arr [], JNum 5, JPrim (JBool False)),
       (2002, Arr [], JNum 2000, JPrim (JBool False))]) = [2000, 2002]
   \<and> sorted_wrt (<) (returned_versions (publish_seq alice_table ''alice''
      [(2000, Arr [], JNum 5, JPrim (JBool False)),
       (2001, Arr [], JNum 5, JPrim (JBool False)),
       (2002, Arr [], JNum 2000, JPrim (JBool False))]))"
proof -
  have s: "sorted_wrt (<) (map fst
      [(2000 :: int, Arr [] :: unit doc, JNum 5, JPrim (JBool False)),
       (2001, Arr [], JNum 5, JPrim (JBool False)),
       (2002, Arr [], JNum 2000, JPrim (JBool False))])"
    by simp
  have v: "returned_versions (publish_seq alice_table ''alice''
      [(2000, Arr [], JNum 5, JPrim (JBool False)),
       (2001, Arr [], JNum 5, JPrim (JBool False)),
       (2002, Arr [], JNum 2000, JPrim (JBool False))]) = [2000, 2002]"
    by (simp add: publish_def serverVersion_def db_get_def insert_or_replace_def alice_table_def)
  show ?thesis
    using C4_versions_follow_clock [OF s, of alice_table "''alice''"] v by simp
qed

text \<open>
  As stated for every sequence of successful calls, the property fails: two calls that
  read the same millisecond both succeed and return the same version.
\<close>

theorem C4_same_millisecond_counterexample:
  "publish_seq alice_table ''alice''
      [(2000, Arr [], JNum 5, JPrim (JBool False)),
       (2000, Arr [], JNum 2000, JPrim (JBool False))] = [Success 2000, Success 2000]
   \<and> \<not> sorted_wrt (<) (returned_versions (publish_seq alice_table ''alice''
      [(2000, Arr [], JNum 5, JPrim (JBool False)),
       (2000, Arr [], JNum 2000, JPrim (JBool False))]))"
  by (simp add: publish_def serverVersion_def db_get_def insert_or_replace_def alice_table_def)

section \<open>The guards of the reminder scanner\<close>

text \<open>
  C2 (window edge), as the code has it. Take a task that is not completed, not deleted
  (\<^verbatim>\<open>deletedAt\<close> absent or falsy), whose \<^verbatim>\<open>remindAt\<close> is a number \<open>r\<close> other than 0,
  and that is not already notified (the test \<^verbatim>\<open>notifiedAt && notifiedAt >= remindAt\<close>
  fails, which it does in particular when \<^verbatim>\<open>notifiedAt\<close> is absent or less than \<open>r\<close>).
  A scan at time \<open>now\<close> calls the dispatcher for it exactly when \<open>now\<close> lies in the
  half-open window from \<open>r\<close> to \<open>r + PUSH_WINDOW_MS\<close>: not at \<open>r - 1\<close>, at \<open>r\<close>, and not at
  \<open>r + PUSH_WINDOW_MS\<close>.
\<close>

theorem C2_reminder_window:
  assumes "status t \<noteq> JStr ''completed''"
    and "\<not> truthy (deletedAt t)"
    and "remindAt t = JNum r"
    and "r \<noteq> 0"
    and "\<not> (truthy_num (notifiedAt t) \<and> num_ge (to_number (notifiedAt t)) (Some r))"
  shows "(due now t \<longleftrightarrow> in_window now r)
         \<and> \<not> due (r - 1) t \<and> due r t \<and> \<not> due (r + PUSH_WINDOW_MS) t"
  using assms by (auto simp: due_def in_window_def PUSH_WINDOW_MS_def)

theorem C2_reminder_window_witness:
  "(due 1030 task_t1 \<longleftrightarrow> in_window 1030 1000)
   \<and> \<not> due 999 task_t1 \<and> due 1000 task_t1 \<and> \<not> due 61000 task_t1"
proof -
  have "status task_t1 \<noteq> JStr ''completed''" and "\<not> truthy (deletedAt task_t1)"
    and "remindAt task_t1 = JNum 1000" and "(1000 :: int) \<noteq> 0"
    and "\<not> (truthy_num (notifiedAt task_t1)
            \<and> num_ge (to_number (notifiedAt task_t1)) (Some 1000))"
    by (simp_all add: task_t1_def)
  from C2_reminder_window [OF this, of 1030] show ?thesis
    by (simp add: PUSH_WINDOW_MS_def)
qed

text \<open>
  With \<^verbatim>\<open>remindAt\<close> present and equal to 0 the statement fails: the task is not
  completed, not deleted and not notified, the scan time 0 is \<^verbatim>\<open>remindAt\<close> itself and
  lies in the window, and the scan does not call the dispatcher.
\<close>

theorem C2_zero_remindAt_counterexample:
  "status (task_t1\<lparr>remindAt := JNum 0\<rparr>) = JStr ''active''
   \<and> deletedAt (task_t1\<lparr>remindAt := JNum 0\<rparr>) = JPrim JUndefined
   \<and> notifiedAt (task_t1\<lparr>remindAt := JNum 0\<rparr>) = JUndefined
   \<and> remindAt (task_t1\<lparr>remindAt := JNum 0\<rparr>) = JNum 0
   \<and> in_window 0 0
   \<and> \<not> due 0 (task_t1\<lparr>remindAt := JNum 0\<rparr>)"
  by (simp add: task_t1_def due_def in_window_def PUSH_WINDOW_MS_def)

text \<open>
  C3 (idempotent notification), as the code has it. A task whose \<^verbatim>\<open>notifiedAt\<close> is a
  number \<open>n\<close> greater than or equal to its \<^verbatim>\<open>remindAt\<close> \<open>r\<close> is not dispatched by a scan
  at any time, provided \<open>n\<close> is not 0 (or \<open>r\<close> is not negative): the only tasks left out
  are those with \<^verbatim>\<open>notifiedAt = 0\<close> and a negative \<^verbatim>\<open>remindAt\<close>.
\<close>

theorem C3_notified_never_redispatched:
  assumes "notifiedAt t = JNum n"
    and "remindAt t = JNum r"
    and "r \<le> n"
    and "n \<noteq> 0 \<or> 0 \<le> r"
  shows "\<not> due now t"
  using assms by (auto simp: due_def)

text \<open>The scenario of the specification: notified at 1000, scanned again at 1030.\<close>

theorem C3_notified_never_redispatched_witness:
  "\<not> due 1030 (task_t1\<lparr>notifiedAt := JNum 1000\<rparr>)
   \<and> \<not> due 1000 (task_t1\<lparr>notifiedAt := JNum 1000\<rparr>)"
proof -
  have "notifiedAt (task_t1\<lparr>notifiedAt := JNum 1000\<rparr>) = JNum 1000"
    and "remindAt (task_t1\<lparr>notifiedAt := JNum 1000\<rparr>) = JNum 1000"
    and "(1000 :: int) \<le> 1000"
    and "(1000 :: int) \<noteq> 0 \<or> (0 :: int) \<le> 1000"
    by (simp_all add: task_t1_def)
  from C3_notified_never_redispatched [OF this, of 1030]
    C3_notified_never_redispatched [OF this, of 1000]
  show ?thesis by simp
qed

text \<open>
  A \<^verbatim>\<open>notifiedAt\<close> that is present, equal to 0 and not less than a negative
  \<^verbatim>\<open>remindAt\<close> does not stop the dispatch: the scan at time 3 calls the dispatcher.
\<close>

theorem C3_zero_notifiedAt_counterexample:
  "notifiedAt (task_t1\<lparr>remindAt := JNum (- 5), notifiedAt := JNum 0\<rparr>) = JNum 0
   \<and> remindAt (task_t1\<lparr>remindAt := JNum (- 5), notifiedAt := JNum 0\<rparr>) = JNum (- 5)
   \<and> num_ge (to_number (notifiedAt (task_t1\<lparr>remindAt := JNum (- 5), notifiedAt := JNum 0\<rparr>)))
        (to_number (remindAt (task_t1\<lparr>remindAt := JNum (- 5), notifiedAt := JNum 0\<rparr>)))
   \<and> due 3 (task_t1\<lparr>remindAt := JNum (- 5), notifiedAt := JNum 0\<rparr>)"
  by (simp add: task_t1_def due_def PUSH_WINDOW_MS_def)

text \<open>
  C10 (zero is falsy). A task whose \<^verbatim>\<open>remindAt\<close> is 0 is not dispatched by a scan at any
  time, the times of the window from 0 included; and for the already-notified test a
  \<^verbatim>\<open>notifiedAt\<close> of 0 counts as an absent one: the scan decides the task exactly as it
  decides the same task without \<^verbatim>\<open>notifiedAt\<close>.
\<close>

theorem C10_zero_is_absent:
  "\<not> due now (t\<lparr>remindAt := JNum 0\<rparr>)
   \<and> \<not> due 0 (t\<lparr>remindAt := JNum 0\<rparr>)
   \<and> due now (t\<lparr>notifiedAt := JNum 0\<rparr>) = due now (t\<lparr>notifiedAt := JUndefined\<rparr>)"
  by (simp add: due_def)

section \<open>The dispatcher\<close>





lemma sendPushToUser_sent:
  "fst (sendPushToUser configured tr has_run db u m)
     = (configured \<and> (\<exists>s \<in> set (stored (run_issued has_run db)). username s = u))"
  by (auto simp: sendPushToUser_def Let_def filter_empty_conv)





section \<open>The scan of one user's collection\<close>

lemma scan_tasks_tasks:
  "fst (scan_tasks configured tr sched u now es reg)
     = mark_sent now es (sent_flags configured tr sched u now es reg)"
  by (induction configured tr sched u now es reg rule: scan_tasks.induct)
     (auto simp: mark_sent_def split: prod.splits)

lemma scan_tasks_changed:
  "fst (snd (scan_tasks configured tr sched u now es reg))
     = (True \<in> set (sent_flags configured tr sched u now es reg))"
  by (induction configured tr sched u now es reg rule: scan_tasks.induct)
     (auto split: prod.splits)

lemma length_sent_flags:
  "length (sent_flags configured tr sched u now es reg) = length es"
  by (induction configured tr sched u now es reg rule: sent_flags.induct)
     (auto split: prod.splits)

lemma sent_flags_due:
  assumes "i < length es" and "sent_flags configured tr sched u now es reg ! i"
  shows "\<exists>t. es ! i = Record t \<and> due now t"
  using assms
proof (induction configured tr sched u now es reg arbitrary: i rule: sent_flags.induct)
  case (1 configured tr sched u now reg)
  then show ?case by simp
next
  case (2 configured tr sched u now v es reg)
  then show ?case by (cases i) auto
next
  case (3 configured tr sched u now t es reg)
  then show ?case by (cases i) (auto split: prod.splits if_splits)
qed

text \<open>
  The scan reads all rows first and writes while it walks them. A write replaces the
  row of the user being processed only, so with unique user names every row the scan
  reaches is still the stored one.
\<close>

lemma scan_row_other_user:
  assumes "k \<noteq> fst urow"
  shows "db_get (fst (scan_row configured tr sched now wclock urow st)) k = db_get (fst st) k"
  using assms
  by (cases st)
     (auto simp: scan_row_def db_get_insert_or_replace_other split: doc.splits prod.splits)

lemma scan_rows_other_user:
  assumes "k \<notin> fst ` set rows"
  shows "db_get (fst (fold (scan_row configured tr sched now wclock) rows st)) k = db_get (fst st) k"
  using assms
proof (induction rows arbitrary: st)
  case Nil
  then show ?case by simp
next
  case (Cons r rows)
  then show ?case by (simp add: scan_row_other_user)
qed

lemma scan_reads_stored_row:
  assumes "distinct (map fst (rows1 @ (u, row) # rows2))"
  shows "db_get (fst (fold (scan_row configured tr sched now wclock) rows1
                        (rows1 @ (u, row) # rows2, reg))) u = Some row"
proof -
  have "u \<notin> fst ` set rows1"
    using assms by auto
  then have "db_get (fst (fold (scan_row configured tr sched now wclock) rows1
                        (rows1 @ (u, row) # rows2, reg))) u
             = db_get (rows1 @ (u, row) # rows2) u"
    by (simp add: scan_rows_other_user)
  also have "\<dots> = Some row"
    unfolding db_get_def using assms by (intro map_of_is_SomeI) simp_all
  finally show ?thesis .
qed

lemma scan_not_configured:
  "scanAndSendReminders False tr sched now wclock st = st"
  by (simp add: scanAndSendReminders_def)

text \<open>
  C8 (write-back frame). Processing the row of user \<open>u\<close>, whose stored collection is
  \<open>es\<close>: the row is written back exactly when the dispatcher answered \<^verbatim>\<open>true\<close> for at
  least one task of the collection, and otherwise the table is left as it is. What is
  written is a collection of the same length and order, in which the element at every
  position is the stored one, except that a task the dispatcher answered \<^verbatim>\<open>true\<close> for
  has its \<^verbatim>\<open>notifiedAt\<close> set to the scan time and no other field changed. Such a task
  was due at the scan time. The version written is the clock reading of the write. A
  row whose document is not an array is never written. (By
  \<open>scan_reads_stored_row\<close> the row the scan processes is the one the table holds.)
\<close>

theorem C8_write_back_frame:
  "(json_data row = Arr es \<longrightarrow>
      fst (scan_row configured tr sched now wclock (u, row) (tbl, reg)) =
        (if True \<in> set (sent_flags configured tr sched u now es reg)
         then insert_or_replace u
                \<lparr>json_data = Arr (mark_sent now es (sent_flags configured tr sched u now es reg)),
                 version = wclock u\<rparr> tbl
         else tbl)
      \<and> length (mark_sent now es (sent_flags configured tr sched u now es reg)) = length es
      \<and> (\<forall>i < length es.
            (sent_flags configured tr sched u now es reg ! i \<longrightarrow>
               (\<exists>t. es ! i = Record t \<and> due now t
                    \<and> mark_sent now es (sent_flags configured tr sched u now es reg) ! i
                        = Record (t\<lparr>notifiedAt := JNum now\<rparr>)))
            \<and> (\<not> sent_flags configured tr sched u now es reg ! i \<longrightarrow>
               mark_sent now es (sent_flags configured tr sched u now es reg) ! i = es ! i)))
   \<and> (json_data row = NotArr x \<longrightarrow>
        fst (scan_row configured tr sched now wclock (u, row) (tbl, reg)) = tbl)"
proof -
  let ?flags = "sent_flags configured tr sched u now es reg"
  have written: "fst (scan_row configured tr sched now wclock (u, row) (tbl, reg)) =
           (if True \<in> set ?flags
            then insert_or_replace u
                   \<lparr>json_data = Arr (mark_sent now es ?flags), version = wclock u\<rparr> tbl
            else tbl)"
    if "json_data row = Arr es"
    using that scan_tasks_tasks [of configured tr sched u now es reg]
      scan_tasks_changed [of configured tr sched u now es reg]
    by (auto simp: scan_row_def split: prod.splits)
  have len: "length (mark_sent now es ?flags) = length es"
    by (simp add: mark_sent_def length_sent_flags)
  have elems: "(?flags ! i \<longrightarrow>
           (\<exists>t. es ! i = Record t \<and> due now t
                \<and> mark_sent now es ?flags ! i = Record (t\<lparr>notifiedAt := JNum now\<rparr>)))
        \<and> (\<not> ?flags ! i \<longrightarrow> mark_sent now es ?flags ! i = es ! i)"
    if "i < length es" for i
    using that sent_flags_due [of i es configured tr sched u now reg]
    by (auto simp: mark_sent_def length_sent_flags)
  have other: "fst (scan_row configured tr sched now wclock (u, row) (tbl, reg)) = tbl"
    if "json_data row = NotArr x"
    using that by (simp add: scan_row_def)
  from written len elems other show ?thesis
    by blast
qed

text \<open>
  The scenario of the specification, with a second task that is not due: the scan at
  1000 marks \<^verbatim>\<open>t1\<close> alone and writes the row with the clock reading 1001.
\<close>

theorem C8_write_back_frame_witness:
  "fst (scan_row True example_transport prompt_db 1000 (\<lambda>u. 1001)
          (''alice'', \<lparr>json_data = Arr [Record task_t1, Record (task_t1\<lparr>remindAt := JNum 5000\<rparr>)],
                       version = 5\<rparr>)
          (alice_table, \<lparr>stored = [alice_phone], issued = []\<rparr>))
     = [(''alice'',
         \<lparr>json_data = Arr [Record (task_t1\<lparr>notifiedAt := JNum 1000\<rparr>),
                           Record (task_t1\<lparr>remindAt := JNum 5000\<rparr>)],
          version = 1001\<rparr>)]"
proof -
  have j: "json_data \<lparr>json_data = Arr [Record task_t1, Record (task_t1\<lparr>remindAt := JNum 5000\<rparr>)],
                      version = 5\<rparr>
             = Arr [Record task_t1, Record (task_t1\<lparr>remindAt := JNum 5000\<rparr>)]"
    by simp
  have d: "due 1000 task_t1" "\<not> due 1000 (task_t1\<lparr>remindAt := JNum 5000\<rparr>)"
    by (simp_all add: due_def task_t1_def PUSH_WINDOW_MS_def)
  have s: "sendPushToUser True example_transport has_run \<lparr>stored = [alice_phone], issued = []\<rparr> ''alice'' m
             = (True, \<lparr>stored = [alice_phone], issued = []\<rparr>)"
    for m has_run
    by (simp add: sendPushToUser_def run_issued_def send_job_def example_transport_def
        alice_phone_def)
  have f: "sent_flags True example_transport prompt_db ''alice'' 1000
             [Record task_t1, Record (task_t1\<lparr>remindAt := JNum 5000\<rparr>)]
             \<lparr>stored = [alice_phone], issued = []\<rparr>
           = [True, False]"
    by (simp add: d s)
  have w: "fst (scan_row True example_transport prompt_db 1000 (\<lambda>u. 1001)
          (''alice'', \<lparr>json_data = Arr [Record task_t1, Record (task_t1\<lparr>remindAt := JNum 5000\<rparr>)],
                       version = 5\<rparr>)
          (alice_table, \<lparr>stored = [alice_phone], issued = []\<rparr>))
     = (if True \<in> set (sent_flags True example_transport prompt_db ''alice'' 1000
             [Record task_t1, Record (task_t1\<lparr>remindAt := JNum 5000\<rparr>)]
             \<lparr>stored = [alice_phone], issued = []\<rparr>)
        then insert_or_replace ''alice''
               \<lparr>json_data = Arr (mark_sent 1000
                    [Record task_t1, Record (task_t1\<lparr>remindAt := JNum 5000\<rparr>)]
                    (sent_flags True example_transport prompt_db ''alice'' 1000
                       [Record task_t1, Record (task_t1\<lparr>remindAt := JNum 5000\<rparr>)]
             \<lparr>stored = [alice_phone], issued = []\<rparr>)),
                version = 1001\<rparr> alice_table
        else alice_table)"
    using C8_write_back_frame
      [where row = "\<lparr>json_data = Arr [Record task_t1, Record (task_t1\<lparr>remindAt := JNum 5000\<rparr>)],
                       version = 5\<rparr>"
         and es = "[Record task_t1, Record (task_t1\<lparr>remindAt := JNum 5000\<rparr>)]"
         and configured = True and tr = example_transport and sched = prompt_db and now = 1000
         and wclock = "\<lambda>u. 1001" and u = "''alice''" and tbl = alice_table
         and reg = "\<lparr>stored = [alice_phone], issued = []\<rparr>"] j
    by blast
  show ?thesis
    unfolding w f by (simp add: mark_sent_def insert_or_replace_def alice_table_def)
qed

section \<open>The scenario of the specification\<close>

text \<open>
  The scenario of the specification: the scan at 1000 dispatches \<^verbatim>\<open>t1\<close> and writes the
  row back with \<^verbatim>\<open>notifiedAt = 1000\<close> and a later version; the scan at 1030 changes
  nothing.
\<close>

lemma scenario_first_scan:
  "scanAndSendReminders True example_transport prompt_db 1000 (\<lambda>u. 1001)
     (alice_table, \<lparr>stored = [alice_phone], issued = []\<rparr>)
     = ([(''alice'', \<lparr>json_data = Arr [Record (task_t1\<lparr>notifiedAt := JNum 1000\<rparr>)],
                      version = 1001\<rparr>)], \<lparr>stored = [alice_phone], issued = []\<rparr>)"
proof -
  have d: "due 1000 task_t1"
    by (simp add: due_def task_t1_def PUSH_WINDOW_MS_def)
  have s: "sendPushToUser True example_transport has_run \<lparr>stored = [alice_phone], issued = []\<rparr> ''alice'' m
             = (True, \<lparr>stored = [alice_phone], issued = []\<rparr>)"
    for m has_run
    by (simp add: sendPushToUser_def run_issued_def send_job_def example_transport_def
        alice_phone_def)
  show ?thesis
    by (simp add: scanAndSendReminders_def scan_row_def alice_table_def d s insert_or_replace_def)
qed

lemma scenario_second_scan:
  "scanAndSendReminders True example_transport prompt_db 1030 (\<lambda>u. 1031)
     ([(''alice'', \<lparr>json_data = Arr [Record (task_t1\<lparr>notifiedAt := JNum 1000\<rparr>)],
                    version = 1001\<rparr>)], \<lparr>stored = [alice_phone], issued = []\<rparr>)
     = ([(''alice'', \<lparr>json_data = Arr [Record (task_t1\<lparr>notifiedAt := JNum 1000\<rparr>)],
                      version = 1001\<rparr>)], \<lparr>stored = [alice_phone], issued = []\<rparr>)"
proof -
  have d: "\<not> due 1030 (task_t1\<lparr>notifiedAt := JNum 1000\<rparr>)"
    by (simp add: due_def task_t1_def)
  show ?thesis
    by (simp add: scanAndSendReminders_def scan_row_def d)
qed


end
